theory Spec2Isabelle
  imports Complex_Main "HOL-Library.Sublist"
begin

section \<open>Python values, exceptions and built-in operations\<close>

text \<open>
  The values that the JSON and YAML parsers hand to the program. A JSON object (a YAML
  mapping) is a \<open>PDict\<close>: its items in insertion order, looked up by \<open>map_of\<close>; the
  keys are strings, as every JSON key is. A float is approximated by a real number; the
  program only stores floats and passes them on.
\<close>

datatype pyval =
    PNone
  | PBool bool
  | PInt int
  | PFloat real
  | PStr string
  | PList "pyval list"
  | PDict "(string \<times> pyval) list"

text \<open>
  The exceptions of class \<open>Exception\<close> that the modelled code can meet: the ones Python's
  own operations raise on a value of the wrong type, and \<open>LibraryError\<close> for whatever an
  external library raises (opening a file, parsing, the model, the engines), carrying
  the text that \<open>str(e)\<close> gives.
\<close>

datatype pyexc =
    TypeError string
  | KeyError string
  | AttributeError string
  | LibraryError string

definition quoted :: "string \<Rightarrow> string" where
  "quoted s = [CHR 0x27] @ s @ [CHR 0x27]"

fun exc_str :: "pyexc \<Rightarrow> string" where
  "exc_str (TypeError m) = m"
| "exc_str (KeyError k) = quoted k"
| "exc_str (AttributeError m) = m"
| "exc_str (LibraryError m) = m"

fun type_name :: "pyval \<Rightarrow> string" where
  "type_name PNone = ''NoneType''"
| "type_name (PBool b) = ''bool''"
| "type_name (PInt i) = ''int''"
| "type_name (PFloat x) = ''float''"
| "type_name (PStr s) = ''str''"
| "type_name (PList xs) = ''list''"
| "type_name (PDict kv) = ''dict''"

text \<open>Truthiness, as \<open>if v:\<close>, \<open>v or w\<close> and \<open>v and w\<close> test it.\<close>

fun py_truthy :: "pyval \<Rightarrow> bool" where
  "py_truthy PNone = False"
| "py_truthy (PBool b) = b"
| "py_truthy (PInt i) = (i \<noteq> 0)"
| "py_truthy (PFloat x) = (x \<noteq> 0)"
| "py_truthy (PStr s) = (s \<noteq> [])"
| "py_truthy (PList xs) = (xs \<noteq> [])"
| "py_truthy (PDict kv) = (kv \<noteq> [])"

text \<open>
  \<open>key in v\<close> for a string \<open>key\<close>: a key of a dict, an element of a list, a substring of
  a string, and a TypeError on a value that is no container.
\<close>

fun py_contains :: "pyval \<Rightarrow> string \<Rightarrow> pyexc + bool" where
  "py_contains (PDict kv) key = Inr (key \<in> set (map fst kv))"
| "py_contains (PList xs) key = Inr (PStr key \<in> set xs)"
| "py_contains (PStr s) key = Inr (sublist key s)"
| "py_contains v key =
     Inl (TypeError (''argument of type '' @ quoted (type_name v) @ '' is not iterable''))"

text \<open>\<open>v[key]\<close> for a string \<open>key\<close>.\<close>

fun py_getitem :: "pyval \<Rightarrow> string \<Rightarrow> pyexc + pyval" where
  "py_getitem (PDict kv) key =
     (case map_of kv key of None \<Rightarrow> Inl (KeyError key) | Some v \<Rightarrow> Inr v)"
| "py_getitem (PList xs) key =
     Inl (TypeError ''list indices must be integers or slices, not str'')"
| "py_getitem (PStr s) key =
     Inl (TypeError (''string indices must be integers, not '' @ quoted ''str''))"
| "py_getitem v key =
     Inl (TypeError (quoted (type_name v) @ '' object is not subscriptable''))"

text \<open>\<open>v.get(key, default)\<close> and \<open>v.items()\<close>: methods of a dict only.\<close>

fun py_get :: "pyval \<Rightarrow> string \<Rightarrow> pyval \<Rightarrow> pyexc + pyval" where
  "py_get (PDict kv) key dflt =
     Inr (case map_of kv key of None \<Rightarrow> dflt | Some v \<Rightarrow> v)"
| "py_get v key dflt =
     Inl (AttributeError (quoted (type_name v) @ '' object has no attribute '' @ quoted ''get''))"

fun py_items :: "pyval \<Rightarrow> pyexc + (string \<times> pyval) list" where
  "py_items (PDict kv) = Inr kv"
| "py_items v =
     Inl (AttributeError (quoted (type_name v) @ '' object has no attribute '' @ quoted ''items''))"

text \<open>
  \<open>s.replace(old, new)\<close>: every occurrence of \<open>old\<close>, found from the left without
  overlap, becomes \<open>new\<close>; an empty \<open>old\<close> matches before every character and at the end.
\<close>

function str_replace :: "string \<Rightarrow> string \<Rightarrow> string \<Rightarrow> string" where
  "str_replace old new [] = (if old = [] then new else [])"
| "str_replace old new (c # cs) =
     (if old = [] then new @ c # str_replace old new cs
      else if prefix old (c # cs) then new @ str_replace old new (drop (length old) (c # cs))
      else c # str_replace old new cs)"
  by pat_completeness auto
termination
  by (relation "measure (\<lambda>(old, new, s). length s)") auto

text \<open>
  Sequencing of two steps of which the first may raise: an exception of the first step
  is the result, the second step is not run.
\<close>

definition py_bind :: "pyexc + 'a \<Rightarrow> ('a \<Rightarrow> pyexc + 'b) \<Rightarrow> pyexc + 'b" where
  "py_bind r f = (case r of Inl e \<Rightarrow> Inl e | Inr x \<Rightarrow> f x)"

section \<open>The EstBERT recognizer (presidio_flask_estbert.py)\<close>

text \<open>
  One aggregated entity of the token-classification pipeline's output: the dict with the
  keys \<open>entity_group\<close>, \<open>score\<close>, \<open>word\<close>, \<open>start\<close> and \<open>end\<close>.
\<close>

record raw_entity =
  entity_group :: string
  ent_score :: real
  ent_word :: string
  ent_start :: int
  ent_end :: int

text \<open>
  \<open>RecognizerResult\<close> of the analyzer library; the two optional attributes are \<open>None\<close>
  unless the analyzer engine fills them in.
\<close>

record recognizer_result =
  entity_type :: string
  start_idx :: int
  end_idx :: int
  score :: real
  analysis_explanation :: pyval
  recognition_metadata :: pyval

definition RecognizerResult :: "string \<Rightarrow> int \<Rightarrow> int \<Rightarrow> real \<Rightarrow> recognizer_result" where
  "RecognizerResult t s e sc =
     \<lparr>entity_type = t, start_idx = s, end_idx = e, score = sc,
      analysis_explanation = PNone, recognition_metadata = PNone\<rparr>"

text \<open>
  What a call can change outside the recognizer object: the state of the external model
  (a black box, which may or may not depend on it) and the lines printed so far.
\<close>

record 'm world =
  model_state :: 'm
  stdout :: "string list"

text \<open>
  The recognizer object: the pipeline built in \<open>__init__\<close> from the external model, which
  returns the entities of a text or raises, and the label mapping.
\<close>

record 'm recognizer =
  nlp_pipeline :: "string \<Rightarrow> 'm \<Rightarrow> (pyexc + raw_entity list) \<times> 'm"
  label_mapping :: "string \<rightharpoonup> string"

definition ENTITIES :: "string list" where
  "ENTITIES = [''PERSON'', ''ORGANIZATION'', ''LOCATION'']"

definition EstBERTRecognizer ::
  "(string \<Rightarrow> 'm \<Rightarrow> (pyexc + raw_entity list) \<times> 'm) \<Rightarrow> 'm recognizer" where
  "EstBERTRecognizer pipeline =
     \<lparr>nlp_pipeline = pipeline,
      label_mapping = [''PER'' \<mapsto> ''PERSON'', ''ORG'' \<mapsto> ''ORGANIZATION'', ''LOC'' \<mapsto> ''LOCATION'']\<rparr>"

text \<open>Line 60: \<open>entity['entity_group'].replace('B-', '').replace('I-', '')\<close>.\<close>

definition strip_tag :: "string \<Rightarrow> string" where
  "strip_tag label = str_replace ''I-'' [] (str_replace ''B-'' [] label)"

text \<open>Line 63: \<open>self.label_mapping.get(entity_type, entity_type)\<close>.\<close>

definition presidio_entity :: "(string \<rightharpoonup> string) \<Rightarrow> raw_entity \<Rightarrow> string" where
  "presidio_entity mapping entity =
     (let entity_type = strip_tag (entity_group entity)
      in case mapping entity_type of None \<Rightarrow> entity_type | Some t \<Rightarrow> t)"

text \<open>The loop of lines 58 to 73, \<open>results\<close> being the list built so far.\<close>

fun analyze_loop ::
  "(string \<rightharpoonup> string) \<Rightarrow> string list \<Rightarrow> raw_entity list \<Rightarrow> recognizer_result list
   \<Rightarrow> recognizer_result list" where
  "analyze_loop mapping entities [] results = results"
| "analyze_loop mapping entities (entity # rest) results =
     (let p = presidio_entity mapping entity
      in if p \<noteq> [] \<and> p \<in> set entities
         then analyze_loop mapping entities rest
                (results @ [RecognizerResult p (ent_start entity) (ent_end entity) (ent_score entity)])
         else analyze_loop mapping entities rest results)"

text \<open>
  \<open>EstBERTRecognizer.analyze\<close>: the pipeline runs once on the text; when it raises, the
  handler prints the error and the list built so far, which is empty, is returned.
\<close>

definition analyze ::
  "'m recognizer \<Rightarrow> string \<Rightarrow> string list \<Rightarrow> 'm world \<Rightarrow> recognizer_result list \<times> 'm world" where
  "analyze self text entities w =
     (case nlp_pipeline self text (model_state w) of
        (Inl e, m) \<Rightarrow>
          ([], \<lparr>model_state = m,
                stdout = stdout w @ [''Error in EstBERT analysis: '' @ exc_str e]\<rparr>)
      | (Inr ner_results, m) \<Rightarrow>
          (analyze_loop (label_mapping self) entities ner_results [],
           \<lparr>model_state = m, stdout = stdout w\<rparr>))"

subsection \<open>validate_config\<close>

definition required_sections :: "string list" where
  "required_sections = [''supported_languages'', ''nlp_configuration'', ''estbert_configuration'']"

text \<open>The loop of lines 127 to 131 over the required sections.\<close>

fun check_sections :: "string list \<Rightarrow> pyval \<Rightarrow> pyexc + bool \<times> string" where
  "check_sections [] config = Inr (True, ''Configuration is valid'')"
| "check_sections (section # rest) config =
     (case py_contains config section of
        Inl e \<Rightarrow> Inl e
      | Inr present \<Rightarrow>
          if present then check_sections rest config
          else Inr (False, ''Missing required section: '' @ section))"

text \<open>
  \<open>validate_config\<close>. Opening the file and \<open>yaml.safe_load\<close> are external: \<open>read_yaml\<close>
  gives the parsed document of a path, or the exception that opening or parsing raised.
  Every exception of the body is turned into the pair of the \<open>except\<close> clause.
\<close>

definition validate_config :: "(string \<Rightarrow> pyexc + pyval) \<Rightarrow> string \<Rightarrow> bool \<times> string" where
  "validate_config read_yaml config_path =
     (case py_bind (read_yaml config_path) (check_sections required_sections) of
        Inl e \<Rightarrow> (False, ''Configuration error: '' @ exc_str e)
      | Inr r \<Rightarrow> r)"

text \<open>
  The words of the specification: a required section is present in a document when it
  is a key of the document's top-level mapping.
\<close>

fun spec_has_section :: "pyval \<Rightarrow> string \<Rightarrow> bool" where
  "spec_has_section (PDict kv) section = (section \<in> set (map fst kv))"
| "spec_has_section v section = False"

section \<open>The web server (app.py)\<close>

text \<open>
  \<open>OperatorConfig\<close> of the anonymizer library: the operator's name and its parameters.
  The library's constructor validates the name: a falsy name (empty, null, zero, false)
  raises \<open>InvalidParamError\<close>.
\<close>

datatype operator_config =
  OperatorConfig (operator_name: pyval) (params: "(string \<times> pyval) list")

definition operator_config_init :: "pyval \<Rightarrow> (string \<times> pyval) list \<Rightarrow> pyexc + operator_config" where
  "operator_config_init operator ps =
     (if py_truthy operator then Inr (OperatorConfig operator ps)
      else Inl (LibraryError ''Invalid input, operator config must contain operator_name''))"

text \<open>The anonymizer engine's result: the new text and one item for each replaced span.\<close>

record operator_result =
  item_start :: int
  item_end :: int
  item_entity_type :: string
  item_text :: string
  item_operator :: string

record engine_result =
  result_text :: string
  result_items :: "operator_result list"

text \<open>
  The server object as the routes use it: the loaded configuration, the two engines
  (external; each gets its keyword arguments and returns or raises) and Python's \<open>str\<close>
  on a float, which the model does not compute.
\<close>

record server =
  config :: pyval
  analyzer :: "(string \<times> pyval) list \<Rightarrow> pyexc + recognizer_result list"
  anonymizer ::
    "pyval \<Rightarrow> recognizer_result list \<Rightarrow> (string \<rightharpoonup> operator_config) \<Rightarrow> pyexc + engine_result"
  float_str :: "real \<Rightarrow> string"

text \<open>
  The request: whether its content type is JSON, and what \<open>get_json()\<close> gives, the parsed
  body or the exception it raises.
\<close>

record request =
  is_json :: bool
  get_json :: "pyexc + pyval"

text \<open>A response is the JSON document of \<open>jsonify\<close> and the status code.\<close>

type_synonym response = "pyval \<times> nat"

definition jsonify_error :: "string \<Rightarrow> pyval" where
  "jsonify_error message = PDict [(''error'', PStr message)]"

text \<open>
  \<open>handle_generic_exception\<close>, registered for exceptions that leave a view function: the
  response and the line it logs.
\<close>

definition handle_generic_exception :: "pyexc \<Rightarrow> response \<times> string list" where
  "handle_generic_exception error =
     ((jsonify_error ''Internal server error'', 500), [''Unexpected error: '' @ exc_str error])"

subsection \<open>The route /analyze\<close>

definition analyze_default_entities :: pyval where
  "analyze_default_entities =
     PList [PStr ''PERSON'', PStr ''LOCATION'', PStr ''ORGANIZATION'', PStr ''PHONE_NUMBER'',
            PStr ''EMAIL_ADDRESS'', PStr ''URL'', PStr ''IP_ADDRESS'', PStr ''IBAN_CODE'',
            PStr ''DATE_TIME'', PStr ''CRYPTO'', PStr ''CREDIT_CARD'']"

text \<open>
  Line 149: \<open>entities or self.config.get('entities_to_detect', [...])\<close>; the right operand
  is evaluated only when \<open>entities\<close> is falsy.
\<close>

definition analyze_entities_to_detect :: "pyval \<Rightarrow> pyval \<Rightarrow> pyexc + pyval" where
  "analyze_entities_to_detect cfg entities =
     (if py_truthy entities then Inr entities
      else py_get cfg ''entities_to_detect'' analyze_default_entities)"

text \<open>Lines 163 to 176: the dict of one analyzer result.\<close>

definition result_dict :: "(real \<Rightarrow> string) \<Rightarrow> recognizer_result \<Rightarrow> pyval" where
  "result_dict str result =
     PDict ([(''entity_type'', PStr (entity_type result)),
             (''start'', PInt (start_idx result)),
             (''end'', PInt (end_idx result)),
             (''score'', PStr (str (score result)))]
            @ (if py_truthy (analysis_explanation result)
               then [(''analysis_explanation'', analysis_explanation result)] else [])
            @ (if py_truthy (recognition_metadata result)
               then [(''recognition_metadata'', recognition_metadata result)] else []))"

text \<open>The \<open>try\<close> block of the view function \<open>analyze\<close>, lines 132 to 183.\<close>

definition analyze_body :: "server \<Rightarrow> request \<Rightarrow> pyexc + response" where
  "analyze_body self request =
     (if \<not> is_json request then Inr (jsonify_error ''Request must be JSON'', 400)
      else
        py_bind (get_json request) (\<lambda>data.
        py_bind (py_contains data ''text'') (\<lambda>has_text.
        if \<not> has_text then Inr (jsonify_error ''Missing required field: text'', 400)
        else
          py_bind (py_getitem data ''text'') (\<lambda>text.
          py_bind (py_get data ''language'' (PStr ''xx'')) (\<lambda>language.
          py_bind (py_get data ''entities'' PNone) (\<lambda>entities.
          py_bind (py_get data ''return_decision_process'' (PBool False)) (\<lambda>return_decision_process.
          py_bind (py_get data ''correlation_id'' PNone) (\<lambda>correlation_id.
          py_bind (analyze_entities_to_detect (config self) entities) (\<lambda>entities_to_detect.
          py_bind (analyzer self
                     [(''text'', text), (''entities'', entities_to_detect),
                      (''language'', language),
                      (''return_decision_process'', return_decision_process),
                      (''correlation_id'', correlation_id)]) (\<lambda>analyzer_results.
          Inr (PDict [(''results'', PList (map (result_dict (float_str self)) analyzer_results)),
                      (''text'', text)], 200)))))))))))"

text \<open>
  The view function \<open>analyze\<close> with its \<open>except\<close> clause, lines 185 to 188: the response,
  and the lines passed to \<open>logger.error\<close>.
\<close>

definition analyze_route :: "server \<Rightarrow> request \<Rightarrow> response \<times> string list" where
  "analyze_route self request =
     (case analyze_body self request of
        Inr resp \<Rightarrow> (resp, [])
      | Inl e \<Rightarrow>
          ((jsonify_error (''Analysis failed: '' @ exc_str e), 500),
           [''Analysis failed: '' @ exc_str e]))"

subsection \<open>The route /anonymize\<close>

definition anonymize_default_entities :: pyval where
  "anonymize_default_entities =
     PList [PStr ''PERSON'', PStr ''ORGANIZATION'', PStr ''LOCATION'', PStr ''DATE_TIME'',
            PStr ''EMAIL_ADDRESS'', PStr ''PHONE_NUMBER'', PStr ''URL'', PStr ''IP_ADDRESS'']"

text \<open>Lines 223 to 226.\<close>

definition anonymize_entities_to_detect :: "pyval \<Rightarrow> pyval \<Rightarrow> pyexc + pyval" where
  "anonymize_entities_to_detect cfg entities =
     (if py_truthy entities then Inr entities
      else py_get cfg ''entities_to_detect'' anonymize_default_entities)"

text \<open>Lines 241 to 250: the parameters of one operator of the request.\<close>

definition operator_params :: "string \<Rightarrow> pyval \<Rightarrow> pyval \<Rightarrow> pyexc + (string \<times> pyval) list" where
  "operator_params etype cfg operator_type =
     (if operator_type = PStr ''replace'' then
        py_bind (py_get cfg ''new_value'' (PStr (''<'' @ etype @ ''>''))) (\<lambda>new_value.
        Inr [(''new_value'', new_value)])
      else if operator_type = PStr ''mask'' then
        py_bind (py_get cfg ''masking_char'' (PStr ''*'')) (\<lambda>masking_char.
        py_bind (py_get cfg ''chars_to_mask'' (PInt 4)) (\<lambda>chars_to_mask.
        py_bind (py_get cfg ''from_end'' (PBool True)) (\<lambda>from_end.
        Inr [(''masking_char'', masking_char), (''chars_to_mask'', chars_to_mask),
             (''from_end'', from_end)])))
      else Inr [])"

text \<open>
  Lines 240 to 252: the operator built from one entry of the request's map; the
  constructor of line 252 may raise.
\<close>

definition operator_for :: "string \<Rightarrow> pyval \<Rightarrow> pyexc + operator_config" where
  "operator_for etype cfg =
     py_bind (py_get cfg ''type'' (PStr ''replace'')) (\<lambda>operator_type.
     py_bind (operator_params etype cfg operator_type) (\<lambda>ps.
     operator_config_init operator_type ps))"

text \<open>The loop of line 239 over the request's map, \<open>operators\<close> being the dict so far.\<close>

fun custom_operators ::
  "(string \<times> pyval) list \<Rightarrow> (string \<rightharpoonup> operator_config)
   \<Rightarrow> pyexc + (string \<rightharpoonup> operator_config)" where
  "custom_operators [] operators = Inr operators"
| "custom_operators ((etype, cfg) # rest) operators =
     (case operator_for etype cfg of
        Inl e \<Rightarrow> Inl e
      | Inr oc \<Rightarrow> custom_operators rest (operators(etype \<mapsto> oc)))"

text \<open>The loop of lines 256 and 257 over the configuration's default operators.\<close>

fun default_operators ::
  "(string \<times> pyval) list \<Rightarrow> (string \<rightharpoonup> operator_config)
   \<Rightarrow> pyexc + (string \<rightharpoonup> operator_config)" where
  "default_operators [] operators = Inr operators"
| "default_operators ((etype, replacement) # rest) operators =
     (case operator_config_init (PStr ''replace'') [(''new_value'', replacement)] of
        Inl e \<Rightarrow> Inl e
      | Inr oc \<Rightarrow> default_operators rest (operators(etype \<mapsto> oc)))"

text \<open>Lines 236 to 257: the operators handed to the anonymizer engine.\<close>

definition setup_operators :: "pyval \<Rightarrow> pyval \<Rightarrow> pyexc + (string \<rightharpoonup> operator_config)" where
  "setup_operators anonymizers cfg =
     (if py_truthy anonymizers then
        py_bind (py_items anonymizers) (\<lambda>entries. custom_operators entries Map.empty)
      else
        py_bind (py_get cfg ''anonymization_config'' (PDict [])) (\<lambda>anonymization_config.
        py_bind (py_get anonymization_config ''default_operators'' (PDict [])) (\<lambda>default_anonymizers.
        py_bind (py_items default_anonymizers) (\<lambda>entries.
        default_operators entries Map.empty))))"

text \<open>Lines 269 to 275: the dict of one item of the anonymizer's result.\<close>

definition item_dict :: "operator_result \<Rightarrow> pyval" where
  "item_dict item =
     PDict [(''start'', PInt (item_start item)), (''end'', PInt (item_end item)),
            (''entity_type'', PStr (item_entity_type item)),
            (''text'', PStr (item_text item)),
            (''operator'', PStr (item_operator item))]"

text \<open>The \<open>try\<close> block of the view function \<open>anonymize\<close>, lines 207 to 280.\<close>

definition anonymize_body :: "server \<Rightarrow> request \<Rightarrow> pyexc + response" where
  "anonymize_body self request =
     (if \<not> is_json request then Inr (jsonify_error ''Request must be JSON'', 400)
      else
        py_bind (get_json request) (\<lambda>data.
        py_bind (py_contains data ''text'') (\<lambda>has_text.
        if \<not> has_text then Inr (jsonify_error ''Missing required field: text'', 400)
        else
          py_bind (py_getitem data ''text'') (\<lambda>text.
          py_bind (py_get data ''language'' (PStr ''xx'')) (\<lambda>language.
          py_bind (py_get data ''anonymizers'' PNone) (\<lambda>anonymizers.
          py_bind (py_get data ''entities'' PNone) (\<lambda>entities.
          py_bind (anonymize_entities_to_detect (config self) entities) (\<lambda>entities_to_detect.
          py_bind (analyzer self
                     [(''text'', text), (''entities'', entities_to_detect),
                      (''language'', language)]) (\<lambda>analyzer_results.
          py_bind (setup_operators anonymizers (config self)) (\<lambda>operators.
          py_bind (anonymizer self text analyzer_results operators) (\<lambda>anonymized_result.
          Inr (PDict [(''text'', PStr (result_text anonymized_result)),
                      (''items'', PList (map item_dict (result_items anonymized_result)))],
               200))))))))))))"

text \<open>The view function \<open>anonymize\<close> with its \<open>except\<close> clause, lines 282 to 285.\<close>

definition anonymize_route :: "server \<Rightarrow> request \<Rightarrow> response \<times> string list" where
  "anonymize_route self request =
     (case anonymize_body self request of
        Inr resp \<Rightarrow> (resp, [])
      | Inl e \<Rightarrow>
          ((jsonify_error (''Anonymization failed: '' @ exc_str e), 500),
           [''Anonymization failed: '' @ exc_str e]))"

text \<open>
  The words of the specification's data model: the score of an entity span is a float
  in the interval from 0 to 1.
\<close>

fun spec_score_valid :: "pyval \<Rightarrow> bool" where
  "spec_score_valid (PFloat x) = (0 \<le> x \<and> x \<le> 1)"
| "spec_score_valid v = False"

text \<open>
  The words of the specification on the operator directive of one entry of a request's
  map, an entry being an object with an optional \<open>type\<close>: the kind is the entry's type,
  \<open>replace\<close> when it has none; \<open>replace\<close> has the parameter \<open>new_value\<close>, by default the
  entity type name in angle brackets; \<open>mask\<close> has the parameters \<open>masking_char\<close>,
  \<open>chars_to_mask\<close> and \<open>from_end\<close>, by default an asterisk, four and true; every other
  kind has no parameters. An entry that is no object, or whose kind is empty, gives no
  directive.
\<close>

fun spec_directive :: "string \<Rightarrow> pyval \<Rightarrow> operator_config option" where
  "spec_directive etype (PDict entry) =
     (let kind = (case map_of entry ''type'' of None \<Rightarrow> PStr ''replace'' | Some k \<Rightarrow> k)
      in if \<not> py_truthy kind then None
         else if kind = PStr ''replace'' then
           Some (OperatorConfig kind
             [(''new_value'',
               case map_of entry ''new_value'' of
                 None \<Rightarrow> PStr (''<'' @ etype @ ''>'') | Some v \<Rightarrow> v)])
         else if kind = PStr ''mask'' then
           Some (OperatorConfig kind
             [(''masking_char'',
               case map_of entry ''masking_char'' of None \<Rightarrow> PStr ''*'' | Some v \<Rightarrow> v),
              (''chars_to_mask'',
               case map_of entry ''chars_to_mask'' of None \<Rightarrow> PInt 4 | Some v \<Rightarrow> v),
              (''from_end'',
               case map_of entry ''from_end'' of None \<Rightarrow> PBool True | Some v \<Rightarrow> v)])
         else Some (OperatorConfig kind []))"
| "spec_directive etype v = None"

section \<open>Example inputs\<close>

text \<open>
  Pipelines standing for the external model; each counts its calls in the model state.
  The first recognises the two entities of \<open>Jaan Tamm elab Tallinnas.\<close>, the second
  raises, the third works on its first call only, the last emits a label with a hyphen.
\<close>

definition demo_pipeline :: "string \<Rightarrow> nat \<Rightarrow> (pyexc + raw_entity list) \<times> nat" where
  "demo_pipeline text calls =
     (Inr [\<lparr>entity_group = ''PER'', ent_score = 0.98, ent_word = ''Jaan Tamm'',
             ent_start = 0, ent_end = 9\<rparr>,
           \<lparr>entity_group = ''LOC'', ent_score = 0.95, ent_word = ''Tallinnas'',
             ent_start = 15, ent_end = 24\<rparr>],
      calls + 1)"

definition failing_pipeline :: "string \<Rightarrow> nat \<Rightarrow> (pyexc + raw_entity list) \<times> nat" where
  "failing_pipeline text calls = (Inl (LibraryError ''CUDA out of memory''), calls + 1)"

definition flaky_pipeline :: "string \<Rightarrow> nat \<Rightarrow> (pyexc + raw_entity list) \<times> nat" where
  "flaky_pipeline text calls =
     (if calls = 0 then demo_pipeline text calls else failing_pipeline text calls)"

definition job_pipeline :: "string \<Rightarrow> nat \<Rightarrow> (pyexc + raw_entity list) \<times> nat" where
  "job_pipeline text calls =
     (Inr [\<lparr>entity_group = ''JOB-TITLE'', ent_score = 0.9, ent_word = ''direktor'',
             ent_start = 0, ent_end = 8\<rparr>],
      calls + 1)"

definition world0 :: "nat world" where
  "world0 = \<lparr>model_state = 0, stdout = []\<rparr>"

text \<open>
  A configuration with the three required sections and a default operator for
  locations, engines that answer for one text and raise for every other, and requests
  with a JSON object as body.
\<close>

definition demo_config :: pyval where
  "demo_config =
     PDict [(''supported_languages'', PList [PStr ''xx'']),
            (''nlp_configuration'', PDict [(''nlp_engine_name'', PStr ''stanza'')]),
            (''estbert_configuration'', PDict [(''model_name'', PStr ''tartuNLP/EstBERT_NER'')]),
            (''anonymization_config'',
               PDict [(''default_operators'', PDict [(''LOCATION'', PStr ''[ASUKOHT]'')])])]"

definition demo_analyzer :: "(string \<times> pyval) list \<Rightarrow> pyexc + recognizer_result list" where
  "demo_analyzer kwargs =
     (if map_of kwargs ''text'' = Some (PStr ''Jaan Tamm'')
      then Inr [RecognizerResult ''PERSON'' 0 9 0.85]
      else Inl (LibraryError ''cannot open /srv/models/estbert/model.bin''))"

definition demo_anonymizer ::
  "pyval \<Rightarrow> recognizer_result list \<Rightarrow> (string \<rightharpoonup> operator_config) \<Rightarrow> pyexc + engine_result" where
  "demo_anonymizer text results operators =
     Inr \<lparr>result_text = ''<PERSON>'',
          result_items = [\<lparr>item_start = 0, item_end = 8, item_entity_type = ''PERSON'',
                            item_text = ''<PERSON>'', item_operator = ''replace''\<rparr>]\<rparr>"

definition demo_server :: server where
  "demo_server =
     \<lparr>config = demo_config, analyzer = demo_analyzer, anonymizer = demo_anonymizer,
      float_str = (\<lambda>x. if x = 0.85 then ''0.85'' else ''0.5'')\<rparr>"

definition json_request :: "(string \<times> pyval) list \<Rightarrow> request" where
  "json_request body = \<lparr>is_json = True, get_json = Inr (PDict body)\<rparr>"

text \<open>
  Readers standing for the file system and the YAML parser: a complete configuration,
  one with a single section, a path that does not exist, an empty file (which parses to
  \<open>None\<close>) and a document that is a list of the three section names.
\<close>

definition complete_yaml :: "string \<Rightarrow> pyexc + pyval" where
  "complete_yaml path = Inr demo_config"

definition partial_yaml :: "string \<Rightarrow> pyexc + pyval" where
  "partial_yaml path = Inr (PDict [(''supported_languages'', PList [PStr ''xx''])])"

definition missing_file :: "string \<Rightarrow> pyexc + pyval" where
  "missing_file path = Inl (LibraryError (''[Errno 2] No such file or directory: '' @ quoted path))"

definition empty_yaml :: "string \<Rightarrow> pyexc + pyval" where
  "empty_yaml path = Inr PNone"

definition list_yaml :: "string \<Rightarrow> pyexc + pyval" where
  "list_yaml path =
     Inr (PList [PStr ''supported_languages'', PStr ''nlp_configuration'',
                 PStr ''estbert_configuration''])"

text \<open>The map of operators of a request that overrides the operator for persons.\<close>

definition demo_anonymizers :: pyval where
  "demo_anonymizers =
     PDict [(''PERSON'', PDict [(''type'', PStr ''replace''), (''new_value'', PStr ''[ISIK]'')])]"

text \<open>
  Engines that show what the handlers hand to them. The analyzer knows one person and
  one location and returns those whose type is among the entities it is asked for; the
  anonymizer reports, for every span, the name and the new value of the operator it was
  given for the span's type. The second server's configuration asks for locations only.
\<close>

definition probe_analyzer :: "(string \<times> pyval) list \<Rightarrow> pyexc + recognizer_result list" where
  "probe_analyzer kwargs =
     Inr (filter (\<lambda>r. PStr (entity_type r) \<in>
                        set (case map_of kwargs ''entities'' of Some (PList es) \<Rightarrow> es | _ \<Rightarrow> []))
            [RecognizerResult ''PERSON'' 0 9 0.85, RecognizerResult ''LOCATION'' 15 24 0.9])"

definition probe_anonymizer ::
  "pyval \<Rightarrow> recognizer_result list \<Rightarrow> (string \<rightharpoonup> operator_config) \<Rightarrow> pyexc + engine_result" where
  "probe_anonymizer text results operators =
     Inr \<lparr>result_text = [],
          result_items =
            map (\<lambda>r. \<lparr>item_start = start_idx r, item_end = end_idx r,
                       item_entity_type = entity_type r,
                       item_text =
                         (case operators (entity_type r) of
                            None \<Rightarrow> []
                          | Some oc \<Rightarrow>
                              (case map_of (params oc) ''new_value'' of
                                 Some (PStr v) \<Rightarrow> v | _ \<Rightarrow> [])),
                       item_operator =
                         (case operators (entity_type r) of
                            None \<Rightarrow> ''no operator''
                          | Some oc \<Rightarrow> (case operator_name oc of PStr n \<Rightarrow> n | _ \<Rightarrow> []))\<rparr>)
              results\<rparr>"

definition probe_server :: server where
  "probe_server =
     \<lparr>config = demo_config, analyzer = probe_analyzer, anonymizer = probe_anonymizer,
      float_str = (\<lambda>x. if x = 0.85 then ''0.85'' else ''0.9'')\<rparr>"


section \<open>Properties of the recognizer\<close>

lemma analyze_loop_filter:
  "analyze_loop mapping entities ner results =
     results @
     map (\<lambda>entity. RecognizerResult (presidio_entity mapping entity)
                      (ent_start entity) (ent_end entity) (ent_score entity))
       (filter (\<lambda>entity. presidio_entity mapping entity \<noteq> [] \<and>
                          presidio_entity mapping entity \<in> set entities) ner)"
  by (induction ner arbitrary: results) (simp_all add: Let_def)

text \<open>
  C1, as the code has it. The claim reads: with an empty set of requested types the
  normalizer keeps every span whose mapped type is valid. The loop of \<open>analyze\<close> has no
  branch for the empty list: it keeps a span exactly when its mapped type is a non-empty
  string and a member of the requested list, in the order of the model's output. So a
  call with an empty list returns no span at all.
\<close>

theorem analyze_retains_requested_only:
  assumes "nlp_pipeline self text (model_state w) = (Inr ner_results, m)"
  shows "fst (analyze self text entities w) =
           map (\<lambda>entity. RecognizerResult (presidio_entity (label_mapping self) entity)
                            (ent_start entity) (ent_end entity) (ent_score entity))
             (filter (\<lambda>entity. presidio_entity (label_mapping self) entity \<noteq> [] \<and>
                                presidio_entity (label_mapping self) entity \<in> set entities)
                ner_results)
         \<and> fst (analyze self text [] w) = []"
  using assms by (simp add: analyze_def analyze_loop_filter)

theorem analyze_retains_requested_only_witness:
  "nlp_pipeline (EstBERTRecognizer demo_pipeline) ''Jaan Tamm elab Tallinnas.'' (model_state world0)
     = (Inr [\<lparr>entity_group = ''PER'', ent_score = 0.98, ent_word = ''Jaan Tamm'',
               ent_start = 0, ent_end = 9\<rparr>,
             \<lparr>entity_group = ''LOC'', ent_score = 0.95, ent_word = ''Tallinnas'',
               ent_start = 15, ent_end = 24\<rparr>], 1)
   \<and> fst (analyze (EstBERTRecognizer demo_pipeline) ''Jaan Tamm elab Tallinnas.'' [''LOCATION''] world0)
     = [RecognizerResult ''LOCATION'' 15 24 0.95]
   \<and> fst (analyze (EstBERTRecognizer demo_pipeline) ''Jaan Tamm elab Tallinnas.'' [] world0) = []"
proof -
  have h: "nlp_pipeline (EstBERTRecognizer demo_pipeline) ''Jaan Tamm elab Tallinnas.'' (model_state world0)
     = (Inr [\<lparr>entity_group = ''PER'', ent_score = 0.98, ent_word = ''Jaan Tamm'',
               ent_start = 0, ent_end = 9\<rparr>,
             \<lparr>entity_group = ''LOC'', ent_score = 0.95, ent_word = ''Tallinnas'',
               ent_start = 15, ent_end = 24\<rparr>], 1)"
    by (simp add: EstBERTRecognizer_def demo_pipeline_def world0_def)
  show ?thesis
    using h analyze_retains_requested_only [OF h, of "[''LOCATION'']"]
    by (simp add: EstBERTRecognizer_def presidio_entity_def strip_tag_def)
qed

text \<open>
  The claim C1 fails on the model's output for \<open>Jaan Tamm elab Tallinnas.\<close>: the first
  span has the valid mapped type PERSON, and the call with an empty list of requested
  types returns nothing.
\<close>

theorem analyze_empty_request_counterexample:
  "presidio_entity (label_mapping (EstBERTRecognizer demo_pipeline))
     \<lparr>entity_group = ''PER'', ent_score = 0.98, ent_word = ''Jaan Tamm'',
       ent_start = 0, ent_end = 9\<rparr> = ''PERSON''
   \<and> fst (analyze (EstBERTRecognizer demo_pipeline) ''Jaan Tamm elab Tallinnas.'' [] world0) = []"
  by (simp add: analyze_def EstBERTRecognizer_def demo_pipeline_def world0_def
      presidio_entity_def strip_tag_def)

text \<open>
  What line 60 does to a label: a label without the two markers is kept, a leading
  marker is removed, and a label absent from the mapping is the entity type as it is
  after stripping.
\<close>

lemma str_replace_absent:
  "old \<noteq> [] \<Longrightarrow> \<not> sublist old s \<Longrightarrow> str_replace old new s = s"
  by (induction s) (auto simp: sublist_Cons_right)

lemma strip_tag_unmarked:
  "\<not> sublist ''B-'' label \<Longrightarrow> \<not> sublist ''I-'' label \<Longrightarrow> strip_tag label = label"
  by (simp add: strip_tag_def str_replace_absent)

lemma strip_tag_leading_marker:
  "\<not> sublist ''B-'' label \<Longrightarrow> \<not> sublist ''I-'' label \<Longrightarrow>
     strip_tag (''B-'' @ label) = label \<and> strip_tag (''I-'' @ label) = label"
  by (simp add: strip_tag_def str_replace_absent sublist_Cons_right)

lemma presidio_entity_unmapped:
  "mapping (strip_tag (entity_group entity)) = None \<Longrightarrow>
     presidio_entity mapping entity = strip_tag (entity_group entity)"
  by (simp add: presidio_entity_def)

text \<open>
  C2, where the code departs from it. The claim reads: only a leading B- or I- is
  stripped, and a label without such a prefix is looked up as it is. The comment of
  line 59 says the same (remove the prefix if present), but \<open>replace\<close> removes the two
  markers wherever they stand. The label JOB-TITLE has no leading marker and contains
  B-: it becomes JOTITLE, so a caller asking for JOB-TITLE gets nothing and the span is
  reported under the type JOTITLE.
\<close>

theorem strip_tag_removes_inner_marker:
  "strip_tag ''JOB-TITLE'' = ''JOTITLE''
   \<and> fst (analyze (EstBERTRecognizer job_pipeline) ''direktor'' [''JOB-TITLE''] world0) = []
   \<and> fst (analyze (EstBERTRecognizer job_pipeline) ''direktor'' [''JOTITLE''] world0)
       = [RecognizerResult ''JOTITLE'' 0 8 0.9]"
  by (simp add: analyze_def EstBERTRecognizer_def job_pipeline_def world0_def
      presidio_entity_def strip_tag_def)

text \<open>
  C3. When the call of the model raises, \<open>analyze\<close> returns the empty list, prints one
  line with the text of the exception, and raises nothing: the result is an ordinary
  value whatever the text and the requested types are.
\<close>

theorem analyze_catches_model_failure:
  assumes "nlp_pipeline self text (model_state w) = (Inl e, m)"
  shows "analyze self text entities w =
           ([], \<lparr>model_state = m,
                 stdout = stdout w @ [''Error in EstBERT analysis: '' @ exc_str e]\<rparr>)"
  using assms by (simp add: analyze_def)

theorem analyze_catches_model_failure_witness:
  "nlp_pipeline (EstBERTRecognizer failing_pipeline) ''Tere'' (model_state world0)
     = (Inl (LibraryError ''CUDA out of memory''), 1)
   \<and> analyze (EstBERTRecognizer failing_pipeline) ''Tere'' [''PERSON''] world0
     = ([], \<lparr>model_state = 1,
            stdout = [''Error in EstBERT analysis: CUDA out of memory'']\<rparr>)"
proof -
  have h: "nlp_pipeline (EstBERTRecognizer failing_pipeline) ''Tere'' (model_state world0)
     = (Inl (LibraryError ''CUDA out of memory''), 1)"
    by (simp add: EstBERTRecognizer_def failing_pipeline_def world0_def)
  show ?thesis
    using h analyze_catches_model_failure [OF h, of "[''PERSON'']"]
    by (simp add: world0_def)
qed

text \<open>
  C9. When what the pipeline returns for the text does not depend on the state of the
  model, two calls of \<open>analyze\<close> with the same text and the same requested types return
  the same spans, whatever the calls in between have printed or done to the model; in
  particular the second of two calls in a row returns what the first returned.
\<close>

theorem analyze_two_runs_agree:
  assumes "\<forall>m m'. fst (nlp_pipeline self text m) = fst (nlp_pipeline self text m')"
  shows "fst (analyze self text entities w) = fst (analyze self text entities w')
         \<and> fst (analyze self text entities (snd (analyze self text entities w)))
             = fst (analyze self text entities w)"
proof -
  have any: "fst (analyze self text entities a) = fst (analyze self text entities b)" for a b
  proof -
    from assms have eq: "fst (nlp_pipeline self text (model_state a))
        = fst (nlp_pipeline self text (model_state b))"
      by blast
    obtain ra ma where pa: "nlp_pipeline self text (model_state a) = (ra, ma)"
      by (cases "nlp_pipeline self text (model_state a)")
    obtain rb mb where pb: "nlp_pipeline self text (model_state b) = (rb, mb)"
      by (cases "nlp_pipeline self text (model_state b)")
    from eq pa pb have "ra = rb" by simp
    with pa pb show ?thesis
      by (cases rb) (simp_all add: analyze_def)
  qed
  show ?thesis using any [of w w'] any [of "snd (analyze self text entities w)" w] by simp
qed

theorem analyze_two_runs_agree_witness:
  "(\<forall>m m'. fst (nlp_pipeline (EstBERTRecognizer demo_pipeline) ''Jaan Tamm elab Tallinnas.'' m)
           = fst (nlp_pipeline (EstBERTRecognizer demo_pipeline) ''Jaan Tamm elab Tallinnas.'' m'))
   \<and> fst (analyze (EstBERTRecognizer demo_pipeline) ''Jaan Tamm elab Tallinnas.'' [''PERSON'']
           (snd (analyze (EstBERTRecognizer demo_pipeline) ''Jaan Tamm elab Tallinnas.'' [''PERSON''] world0)))
     = [RecognizerResult ''PERSON'' 0 9 0.98]
   \<and> fst (analyze (EstBERTRecognizer demo_pipeline) ''Jaan Tamm elab Tallinnas.'' [''PERSON''] world0)
     = [RecognizerResult ''PERSON'' 0 9 0.98]"
proof -
  have h: "\<forall>m m'. fst (nlp_pipeline (EstBERTRecognizer demo_pipeline) ''Jaan Tamm elab Tallinnas.'' m)
           = fst (nlp_pipeline (EstBERTRecognizer demo_pipeline) ''Jaan Tamm elab Tallinnas.'' m')"
    by (simp add: EstBERTRecognizer_def demo_pipeline_def)
  have r: "fst (analyze (EstBERTRecognizer demo_pipeline) ''Jaan Tamm elab Tallinnas.'' [''PERSON''] world0)
     = [RecognizerResult ''PERSON'' 0 9 0.98]"
    by (simp add: analyze_def EstBERTRecognizer_def demo_pipeline_def world0_def
      presidio_entity_def strip_tag_def)
  show ?thesis
    using h r analyze_two_runs_agree [OF h, of "[''PERSON'']" world0 world0]
    by simp
qed

text \<open>
  The hypothesis of C9 is needed: with a model whose answer depends on its state, the
  second of two calls in a row differs from the first.
\<close>

lemma analyze_two_runs_differ_on_stateful_model:
  "fst (analyze (EstBERTRecognizer flaky_pipeline) ''Jaan Tamm elab Tallinnas.'' [''PERSON''] world0)
     = [RecognizerResult ''PERSON'' 0 9 0.98]
   \<and> fst (analyze (EstBERTRecognizer flaky_pipeline) ''Jaan Tamm elab Tallinnas.'' [''PERSON'']
           (snd (analyze (EstBERTRecognizer flaky_pipeline) ''Jaan Tamm elab Tallinnas.'' [''PERSON''] world0)))
     = []"
  by (simp add: analyze_def EstBERTRecognizer_def flaky_pipeline_def demo_pipeline_def
      failing_pipeline_def world0_def presidio_entity_def strip_tag_def)

section \<open>Properties of validate_config\<close>

lemma check_sections_dict:
  "check_sections sections (PDict kv) =
     Inr (case filter (\<lambda>s. s \<notin> set (map fst kv)) sections of
            [] \<Rightarrow> (True, ''Configuration is valid'')
          | s # rest \<Rightarrow> (False, ''Missing required section: '' @ s))"
  by (induction sections) simp_all

lemma filter_missing_Nil:
  "(filter (\<lambda>s. s \<notin> set (map fst kv)) sections = []) =
     (\<forall>s \<in> set sections. spec_has_section (PDict kv) s)"
  by (induction sections) auto

text \<open>
  C4, as the code has it. The claim reads: whenever one of the three required sections
  is absent the result is False with a message that contains the section's name. That
  holds for a document that is a mapping: the message names the first required section
  that is not one of its keys, and a mapping with all three gives True. When the file
  cannot be opened or parsed, or the membership test itself raises, the \<open>except\<close>
  clause gives False with the text of the exception; the function returns a pair in
  every case and raises nothing.
\<close>

theorem validate_config_reports:
  "(read_yaml config_path = Inr (PDict kv) \<and>
      (\<forall>s \<in> set required_sections. spec_has_section (PDict kv) s)
    \<longrightarrow> validate_config read_yaml config_path = (True, ''Configuration is valid''))
   \<and> (read_yaml config_path = Inr (PDict kv) \<and>
      filter (\<lambda>s. \<not> spec_has_section (PDict kv) s) required_sections = missing # rest
    \<longrightarrow> validate_config read_yaml config_path
          = (False, ''Missing required section: '' @ missing) \<and>
        sublist missing (snd (validate_config read_yaml config_path)))
   \<and> (read_yaml config_path = Inl e
    \<longrightarrow> validate_config read_yaml config_path = (False, ''Configuration error: '' @ exc_str e))
   \<and> (read_yaml config_path = Inr doc \<and> py_contains doc ''supported_languages'' = Inl e
    \<longrightarrow> validate_config read_yaml config_path = (False, ''Configuration error: '' @ exc_str e))"
proof (intro conjI impI)
  assume a: "read_yaml config_path = Inr (PDict kv) \<and>
      (\<forall>s \<in> set required_sections. spec_has_section (PDict kv) s)"
  then have "filter (\<lambda>s. s \<notin> set (map fst kv)) required_sections = []"
    by (simp add: filter_missing_Nil)
  with a show "validate_config read_yaml config_path = (True, ''Configuration is valid'')"
    by (simp add: validate_config_def py_bind_def check_sections_dict)
next
  assume a: "read_yaml config_path = Inr (PDict kv) \<and>
      filter (\<lambda>s. \<not> spec_has_section (PDict kv) s) required_sections = missing # rest"
  then show v: "validate_config read_yaml config_path
      = (False, ''Missing required section: '' @ missing)"
    by (simp add: validate_config_def py_bind_def check_sections_dict)
  have "sublist missing (''Missing required section: '' @ missing)"
    by (rule sublist_append_leftI)
  with v show "sublist missing (snd (validate_config read_yaml config_path))"
    by simp
next
  assume "read_yaml config_path = Inl e"
  then show "validate_config read_yaml config_path = (False, ''Configuration error: '' @ exc_str e)"
    by (simp add: validate_config_def py_bind_def)
next
  assume "read_yaml config_path = Inr doc \<and> py_contains doc ''supported_languages'' = Inl e"
  then show "validate_config read_yaml config_path = (False, ''Configuration error: '' @ exc_str e)"
    by (simp add: validate_config_def py_bind_def required_sections_def)
qed

theorem validate_config_reports_witness:
  "validate_config complete_yaml ''presidio.yml'' = (True, ''Configuration is valid'')
   \<and> validate_config partial_yaml ''presidio.yml''
       = (False, ''Missing required section: nlp_configuration'')
   \<and> sublist ''nlp_configuration'' (snd (validate_config partial_yaml ''presidio.yml''))
   \<and> validate_config missing_file ''presidio.yml''
       = (False, ''Configuration error: [Errno 2] No such file or directory: '' @ quoted ''presidio.yml'')
   \<and> validate_config empty_yaml ''presidio.yml''
       = (False, ''Configuration error: argument of type '' @ quoted ''NoneType'' @ '' is not iterable'')"
proof -
  have a: "complete_yaml ''presidio.yml'' = Inr (PDict [(''supported_languages'', PList [PStr ''xx'']),
            (''nlp_configuration'', PDict [(''nlp_engine_name'', PStr ''stanza'')]),
            (''estbert_configuration'', PDict [(''model_name'', PStr ''tartuNLP/EstBERT_NER'')]),
            (''anonymization_config'',
               PDict [(''default_operators'', PDict [(''LOCATION'', PStr ''[ASUKOHT]'')])])])"
    by (simp add: complete_yaml_def demo_config_def)
  have b: "partial_yaml ''presidio.yml'' = Inr (PDict [(''supported_languages'', PList [PStr ''xx''])])"
    by (simp add: partial_yaml_def)
  have c: "missing_file ''presidio.yml''
      = Inl (LibraryError (''[Errno 2] No such file or directory: '' @ quoted ''presidio.yml''))"
    by (simp add: missing_file_def)
  have 1: "validate_config complete_yaml ''presidio.yml'' = (True, ''Configuration is valid'')"
    using a validate_config_reports [of complete_yaml "''presidio.yml''"
        "[(''supported_languages'', PList [PStr ''xx'']),
            (''nlp_configuration'', PDict [(''nlp_engine_name'', PStr ''stanza'')]),
            (''estbert_configuration'', PDict [(''model_name'', PStr ''tartuNLP/EstBERT_NER'')]),
            (''anonymization_config'',
               PDict [(''default_operators'', PDict [(''LOCATION'', PStr ''[ASUKOHT]'')])])]"]
    by (simp add: required_sections_def)
  have 2: "validate_config partial_yaml ''presidio.yml''
       = (False, ''Missing required section: nlp_configuration'')
     \<and> sublist ''nlp_configuration'' (snd (validate_config partial_yaml ''presidio.yml''))"
    using b validate_config_reports [of partial_yaml "''presidio.yml''"
        "[(''supported_languages'', PList [PStr ''xx''])]" "''nlp_configuration''"
        "[''estbert_configuration'']" "LibraryError []" PNone]
    by (auto simp: required_sections_def)
  have 3: "validate_config missing_file ''presidio.yml''
       = (False, ''Configuration error: [Errno 2] No such file or directory: '' @ quoted ''presidio.yml'')"
    using c validate_config_reports [of missing_file "''presidio.yml''" _ _ _
        "LibraryError (''[Errno 2] No such file or directory: '' @ quoted ''presidio.yml'')"]
    by simp
  have 4: "validate_config empty_yaml ''presidio.yml''
       = (False, ''Configuration error: argument of type '' @ quoted ''NoneType'' @ '' is not iterable'')"
    using validate_config_reports [of empty_yaml "''presidio.yml''" _ _ _
        "TypeError (''argument of type '' @ quoted ''NoneType'' @ '' is not iterable'')" PNone]
    by (simp add: empty_yaml_def)
  from 1 2 3 4 show ?thesis by blast
qed

text \<open>
  The claim C4 fails on an empty file. The document is \<open>None\<close>, all three sections are
  absent, the membership test raises, and the message is the text of that TypeError: it
  contains the name of no section.
\<close>

theorem validate_config_empty_document_counterexample:
  "validate_config empty_yaml ''presidio.yml''
     = (False, ''Configuration error: argument of type '' @ quoted ''NoneType'' @ '' is not iterable'')
   \<and> \<not> spec_has_section PNone ''supported_languages''
   \<and> \<not> sublist ''supported_languages'' (snd (validate_config empty_yaml ''presidio.yml''))
   \<and> \<not> sublist ''nlp_configuration'' (snd (validate_config empty_yaml ''presidio.yml''))
   \<and> \<not> sublist ''estbert_configuration'' (snd (validate_config empty_yaml ''presidio.yml''))"
  by (simp add: validate_config_def py_bind_def empty_yaml_def required_sections_def
      quoted_def sublist_Cons_right)

text \<open>
  A document that is a list (or a string) holding the three names passes the
  membership tests and is accepted, although it has no section at all.
\<close>

lemma validate_config_accepts_list_document:
  "validate_config list_yaml ''presidio.yml'' = (True, ''Configuration is valid'')
   \<and> \<not> spec_has_section (PList [PStr ''supported_languages'', PStr ''nlp_configuration'',
                 PStr ''estbert_configuration'']) ''supported_languages''"
  by (simp add: validate_config_def py_bind_def list_yaml_def required_sections_def)

section \<open>Properties of the web server\<close>

lemma py_bind_Inr [simp]: "py_bind (Inr x) f = f x"
  by (simp add: py_bind_def)

lemma py_bind_Inl [simp]: "py_bind (Inl e) f = Inl e"
  by (simp add: py_bind_def)

lemma py_bind_eq_Inr: "(py_bind r f = Inr y) = (\<exists>x. r = Inr x \<and> f x = Inr y)"
  by (cases r) simp_all

text \<open>
  The operator that the handler builds for one entry of the request's map is the
  directive of the specification, and the two loops build the map of the directives.
\<close>

lemma operator_for_directive:
  "spec_directive t c = Some oc \<Longrightarrow> operator_for t c = Inr oc"
  by (cases c)
     (auto simp: operator_for_def operator_params_def operator_config_init_def Let_def
           split: option.splits if_splits)

lemma operator_for_no_directive:
  "spec_directive t c = None \<Longrightarrow> \<exists>e. operator_for t c = Inl e"
  by (cases c)
     (auto simp: operator_for_def operator_params_def operator_config_init_def Let_def
           split: option.splits if_splits)

lemma custom_operators_directives:
  "distinct (map fst entries) \<Longrightarrow> \<forall>(t, c) \<in> set entries. spec_directive t c \<noteq> None \<Longrightarrow>
     custom_operators entries m0 =
       Inr (\<lambda>t. case map_of entries t of None \<Rightarrow> m0 t | Some c \<Rightarrow> spec_directive t c)"
proof (induction entries arbitrary: m0)
  case Nil
  then show ?case by simp
next
  case (Cons entry rest)
  obtain k c where entry: "entry = (k, c)" by (cases entry)
  from Cons.prems(2) entry obtain oc where oc: "spec_directive k c = Some oc"
    by auto
  from Cons.prems(1) entry have d: "distinct (map fst rest)" and k: "k \<notin> set (map fst rest)"
    by simp_all
  from k have none: "map_of rest k = None"
    by (simp add: map_of_eq_None_iff)
  from Cons.prems(2) have all: "\<forall>(t, c) \<in> set rest. spec_directive t c \<noteq> None"
    by simp
  define m1 where "m1 = m0(k \<mapsto> oc)"
  have step: "custom_operators (entry # rest) m0 = custom_operators rest m1"
    by (simp add: entry m1_def operator_for_directive [OF oc])
  have ih: "custom_operators rest m1 =
       Inr (\<lambda>t. case map_of rest t of None \<Rightarrow> m1 t | Some c \<Rightarrow> spec_directive t c)"
    by (rule Cons.IH [OF d all])
  have "(\<lambda>t. case map_of rest t of None \<Rightarrow> m1 t | Some c \<Rightarrow> spec_directive t c)
      = (\<lambda>t. case map_of (entry # rest) t of None \<Rightarrow> m0 t | Some c \<Rightarrow> spec_directive t c)"
  proof (rule ext)
    fix t
    show "(case map_of rest t of None \<Rightarrow> m1 t | Some c \<Rightarrow> spec_directive t c)
        = (case map_of (entry # rest) t of None \<Rightarrow> m0 t | Some c \<Rightarrow> spec_directive t c)"
    proof (cases "t = k")
      case True
      with none oc entry show ?thesis by (simp add: m1_def)
    next
      case False
      with entry show ?thesis by (simp add: m1_def split: option.split)
    qed
  qed
  with step ih show ?case by simp
qed

lemma custom_operators_raises:
  "(t, c) \<in> set entries \<Longrightarrow> spec_directive t c = None \<Longrightarrow>
     \<exists>e. custom_operators entries m0 = Inl e"
proof (induction entries arbitrary: m0)
  case Nil
  then show ?case by simp
next
  case (Cons entry rest)
  obtain k c' where entry: "entry = (k, c')" by (cases entry)
  show ?case
  proof (cases "operator_for k c'")
    case (Inl e)
    with entry show ?thesis by simp
  next
    case (Inr oc)
    with Cons.prems operator_for_no_directive [of k c'] entry
    have "(t, c) \<in> set rest" by auto
    then obtain e where "custom_operators rest (m0(k \<mapsto> oc)) = Inl e"
      using Cons.IH [OF _ Cons.prems(2)] by blast
    with Inr entry show ?thesis by simp
  qed
qed

lemma default_operators_replace:
  "distinct (map fst entries) \<Longrightarrow>
     default_operators entries m0 =
       Inr (\<lambda>t. case map_of entries t of
                  None \<Rightarrow> m0 t
                | Some r \<Rightarrow> Some (OperatorConfig (PStr ''replace'') [(''new_value'', r)]))"
proof (induction entries arbitrary: m0)
  case Nil
  then show ?case by simp
next
  case (Cons entry rest)
  obtain k r where entry: "entry = (k, r)" by (cases entry)
  define m1 where "m1 = m0(k \<mapsto> OperatorConfig (PStr ''replace'') [(''new_value'', r)])"
  from Cons.prems entry have d: "distinct (map fst rest)" and k: "k \<notin> set (map fst rest)"
    by simp_all
  from k have none: "map_of rest k = None"
    by (simp add: map_of_eq_None_iff)
  have step: "default_operators (entry # rest) m0 = default_operators rest m1"
    by (simp add: entry m1_def operator_config_init_def)
  have ih: "default_operators rest m1 =
       Inr (\<lambda>t. case map_of rest t of
                  None \<Rightarrow> m1 t
                | Some r \<Rightarrow> Some (OperatorConfig (PStr ''replace'') [(''new_value'', r)]))"
    by (rule Cons.IH [OF d])
  have "(\<lambda>t. case map_of rest t of
                  None \<Rightarrow> m1 t
                | Some r \<Rightarrow> Some (OperatorConfig (PStr ''replace'') [(''new_value'', r)]))
      = (\<lambda>t. case map_of (entry # rest) t of
                  None \<Rightarrow> m0 t
                | Some r \<Rightarrow> Some (OperatorConfig (PStr ''replace'') [(''new_value'', r)]))"
  proof (rule ext)
    fix t
    show "(case map_of rest t of
                  None \<Rightarrow> m1 t
                | Some r \<Rightarrow> Some (OperatorConfig (PStr ''replace'') [(''new_value'', r)]))
      = (case map_of (entry # rest) t of
                  None \<Rightarrow> m0 t
                | Some r \<Rightarrow> Some (OperatorConfig (PStr ''replace'') [(''new_value'', r)]))"
    proof (cases "t = k")
      case True
      with none entry show ?thesis by (simp add: m1_def)
    next
      case False
      with entry show ?thesis by (simp add: m1_def split: option.split)
    qed
  qed
  with step ih show ?case by simp
qed

text \<open>
  The view function \<open>anonymize\<close> on a request with a JSON object as body that has a
  text, once the analyzer has answered.
\<close>

lemma anonymize_route_steps:
  assumes "is_json request" and "get_json request = Inr (PDict kv)"
    and "map_of kv ''text'' = Some text"
    and "anonymize_entities_to_detect (config self)
           (case map_of kv ''entities'' of None \<Rightarrow> PNone | Some v \<Rightarrow> v) = Inr ents"
    and "analyzer self
           [(''text'', text), (''entities'', ents),
            (''language'', case map_of kv ''language'' of None \<Rightarrow> PStr ''xx'' | Some v \<Rightarrow> v)]
         = Inr results"
  shows "anonymize_route self request =
           (case py_bind (setup_operators
                            (case map_of kv ''anonymizers'' of None \<Rightarrow> PNone | Some v \<Rightarrow> v)
                            (config self))
                   (anonymizer self text results) of
              Inl e \<Rightarrow>
                ((jsonify_error (''Anonymization failed: '' @ exc_str e), 500),
                 [''Anonymization failed: '' @ exc_str e])
            | Inr r \<Rightarrow>
                ((PDict [(''text'', PStr (result_text r)),
                         (''items'', PList (map item_dict (result_items r)))], 200), []))"
proof -
  from assms(3) have key: "''text'' \<in> set (map fst kv)"
    by (auto dest: map_of_SomeD intro: rev_image_eqI)
  have body: "anonymize_body self request =
      py_bind (setup_operators
                 (case map_of kv ''anonymizers'' of None \<Rightarrow> PNone | Some v \<Rightarrow> v)
                 (config self))
        (\<lambda>operators.
           py_bind (anonymizer self text results operators)
             (\<lambda>r. Inr (PDict [(''text'', PStr (result_text r)),
                                (''items'', PList (map item_dict (result_items r)))], 200)))"
    using assms key by (simp add: anonymize_body_def)
  show ?thesis
    unfolding anonymize_route_def body
    by (simp add: py_bind_def split: sum.splits)
qed

text \<open>
  C5, as the code has it. The claim reads: for each entity type the operator comes from
  the request's map, else from the configuration's default operators, else from an
  angle-bracket fallback. The handler of /anonymize takes the operators from one source
  only. On a request with a text for which the analyzer has answered: when the
  request's map is non-empty and every entry gives a directive, the anonymizer engine is
  called with exactly the directives of the entries, so an entity type without an entry
  gets no operator, whatever the configuration holds; an entry that gives no directive
  (its type is empty, or it is no object) makes the request fail with status 500; and
  only when the request has no map, or a falsy one, the engine is called with the
  configuration's default operators, each a replacement by the configured text. The
  items of a dict have distinct keys.
\<close>

theorem anonymize_operators_one_source:
  assumes "is_json request" and "get_json request = Inr (PDict kv)"
    and "map_of kv ''text'' = Some text"
    and "anonymize_entities_to_detect (config self)
           (case map_of kv ''entities'' of None \<Rightarrow> PNone | Some v \<Rightarrow> v) = Inr ents"
    and "analyzer self
           [(''text'', text), (''entities'', ents),
            (''language'', case map_of kv ''language'' of None \<Rightarrow> PStr ''xx'' | Some v \<Rightarrow> v)]
         = Inr results"
  shows "(map_of kv ''anonymizers'' = Some (PDict entries) \<and> entries \<noteq> [] \<and>
          distinct (map fst entries) \<and> (\<forall>(t, c) \<in> set entries. spec_directive t c \<noteq> None)
          \<longrightarrow> anonymize_route self request =
                (case anonymizer self text results
                        (\<lambda>t. case map_of entries t of
                                None \<Rightarrow> None | Some c \<Rightarrow> spec_directive t c) of
                   Inl e \<Rightarrow>
                     ((jsonify_error (''Anonymization failed: '' @ exc_str e), 500),
                      [''Anonymization failed: '' @ exc_str e])
                 | Inr r \<Rightarrow>
                     ((PDict [(''text'', PStr (result_text r)),
                              (''items'', PList (map item_dict (result_items r)))], 200), [])))
       \<and> (map_of kv ''anonymizers'' = Some (PDict entries) \<and>
          (etype, entry) \<in> set entries \<and> spec_directive etype entry = None
          \<longrightarrow> snd (fst (anonymize_route self request)) = 500)
       \<and> ((case map_of kv ''anonymizers'' of None \<Rightarrow> True | Some a \<Rightarrow> \<not> py_truthy a) \<and>
          py_get (config self) ''anonymization_config'' (PDict []) = Inr section \<and>
          py_get section ''default_operators'' (PDict []) = Inr (PDict defaults) \<and>
          distinct (map fst defaults)
          \<longrightarrow> anonymize_route self request =
                (case anonymizer self text results
                        (\<lambda>t. case map_of defaults t of
                                None \<Rightarrow> None
                              | Some r \<Rightarrow>
                                  Some (OperatorConfig (PStr ''replace'') [(''new_value'', r)])) of
                   Inl e \<Rightarrow>
                     ((jsonify_error (''Anonymization failed: '' @ exc_str e), 500),
                      [''Anonymization failed: '' @ exc_str e])
                 | Inr r \<Rightarrow>
                     ((PDict [(''text'', PStr (result_text r)),
                              (''items'', PList (map item_dict (result_items r)))], 200), [])))"
proof (intro conjI impI)
  note steps = anonymize_route_steps [OF assms]
  {
    assume a: "map_of kv ''anonymizers'' = Some (PDict entries) \<and> entries \<noteq> [] \<and>
          distinct (map fst entries) \<and> (\<forall>(t, c) \<in> set entries. spec_directive t c \<noteq> None)"
    then have "custom_operators entries Map.empty =
        Inr (\<lambda>t. case map_of entries t of None \<Rightarrow> None | Some c \<Rightarrow> spec_directive t c)"
      using custom_operators_directives [of entries Map.empty] by simp
    with a have "setup_operators (PDict entries) (config self) =
        Inr (\<lambda>t. case map_of entries t of None \<Rightarrow> None | Some c \<Rightarrow> spec_directive t c)"
      by (simp add: setup_operators_def py_bind_def)
    with a show "anonymize_route self request =
                (case anonymizer self text results
                        (\<lambda>t. case map_of entries t of
                                None \<Rightarrow> None | Some c \<Rightarrow> spec_directive t c) of
                   Inl e \<Rightarrow>
                     ((jsonify_error (''Anonymization failed: '' @ exc_str e), 500),
                      [''Anonymization failed: '' @ exc_str e])
                 | Inr r \<Rightarrow>
                     ((PDict [(''text'', PStr (result_text r)),
                              (''items'', PList (map item_dict (result_items r)))], 200), []))"
      by (simp add: steps py_bind_def)
  }
  {
    assume a: "map_of kv ''anonymizers'' = Some (PDict entries) \<and>
          (etype, entry) \<in> set entries \<and> spec_directive etype entry = None"
    then obtain e where "custom_operators entries Map.empty = Inl e"
      using custom_operators_raises [of etype entry entries Map.empty] by blast
    moreover from a have "entries \<noteq> []" by auto
    ultimately have "setup_operators (PDict entries) (config self) = Inl e"
      by (simp add: setup_operators_def py_bind_def)
    with a show "snd (fst (anonymize_route self request)) = 500"
      by (simp add: steps py_bind_def)
  }
  {
    assume a: "(case map_of kv ''anonymizers'' of None \<Rightarrow> True | Some a \<Rightarrow> \<not> py_truthy a) \<and>
          py_get (config self) ''anonymization_config'' (PDict []) = Inr section \<and>
          py_get section ''default_operators'' (PDict []) = Inr (PDict defaults) \<and>
          distinct (map fst defaults)"
    then have falsy: "\<not> py_truthy (case map_of kv ''anonymizers'' of None \<Rightarrow> PNone | Some v \<Rightarrow> v)"
      by (simp split: option.splits)
    from a have "default_operators defaults Map.empty =
        Inr (\<lambda>t. case map_of defaults t of
                   None \<Rightarrow> None
                 | Some r \<Rightarrow> Some (OperatorConfig (PStr ''replace'') [(''new_value'', r)]))"
      using default_operators_replace [of defaults Map.empty] by simp
    with a falsy have "setup_operators
          (case map_of kv ''anonymizers'' of None \<Rightarrow> PNone | Some v \<Rightarrow> v) (config self) =
        Inr (\<lambda>t. case map_of defaults t of
                   None \<Rightarrow> None
                 | Some r \<Rightarrow> Some (OperatorConfig (PStr ''replace'') [(''new_value'', r)]))"
      by (simp add: setup_operators_def py_bind_def)
    then show "anonymize_route self request =
                (case anonymizer self text results
                        (\<lambda>t. case map_of defaults t of
                                None \<Rightarrow> None
                              | Some r \<Rightarrow>
                                  Some (OperatorConfig (PStr ''replace'') [(''new_value'', r)])) of
                   Inl e \<Rightarrow>
                     ((jsonify_error (''Anonymization failed: '' @ exc_str e), 500),
                      [''Anonymization failed: '' @ exc_str e])
                 | Inr r \<Rightarrow>
                     ((PDict [(''text'', PStr (result_text r)),
                              (''items'', PList (map item_dict (result_items r)))], 200), []))"
      by (simp add: steps py_bind_def)
  }
qed

lemma probe_override_run:
  "anonymize_route probe_server
     (json_request [(''text'', PStr ''Jaan Tamm elab Tallinnas.''),
                    (''anonymizers'', demo_anonymizers)])
   = ((PDict [(''text'', PStr []),
              (''items'',
               PList [PDict [(''start'', PInt 0), (''end'', PInt 9),
                             (''entity_type'', PStr ''PERSON''), (''text'', PStr ''[ISIK]''),
                             (''operator'', PStr ''replace'')],
                      PDict [(''start'', PInt 15), (''end'', PInt 24),
                             (''entity_type'', PStr ''LOCATION''), (''text'', PStr []),
                             (''operator'', PStr ''no operator'')]])], 200), [])"
  by (simp add: anonymize_route_def anonymize_body_def json_request_def probe_server_def
      demo_config_def anonymize_entities_to_detect_def anonymize_default_entities_def
      probe_analyzer_def RecognizerResult_def setup_operators_def demo_anonymizers_def
      operator_for_def operator_params_def operator_config_init_def probe_anonymizer_def
      item_dict_def py_bind_def)

theorem anonymize_operators_one_source_witness:
  "anonymize_route probe_server
     (json_request [(''text'', PStr ''Jaan Tamm elab Tallinnas.''),
                    (''anonymizers'', demo_anonymizers)])
   = ((PDict [(''text'', PStr []),
              (''items'',
               PList [PDict [(''start'', PInt 0), (''end'', PInt 9),
                             (''entity_type'', PStr ''PERSON''), (''text'', PStr ''[ISIK]''),
                             (''operator'', PStr ''replace'')],
                      PDict [(''start'', PInt 15), (''end'', PInt 24),
                             (''entity_type'', PStr ''LOCATION''), (''text'', PStr []),
                             (''operator'', PStr ''no operator'')]])], 200), [])
   \<and> snd (fst (anonymize_route probe_server
        (json_request [(''text'', PStr ''Jaan Tamm elab Tallinnas.''),
                       (''anonymizers'', PDict [(''PERSON'', PDict [(''type'', PStr [])])])])))
     = 500
   \<and> anonymize_route probe_server
       (json_request [(''text'', PStr ''Jaan Tamm elab Tallinnas.'')])
   = ((PDict [(''text'', PStr []),
              (''items'',
               PList [PDict [(''start'', PInt 0), (''end'', PInt 9),
                             (''entity_type'', PStr ''PERSON''), (''text'', PStr []),
                             (''operator'', PStr ''no operator'')],
                      PDict [(''start'', PInt 15), (''end'', PInt 24),
                             (''entity_type'', PStr ''LOCATION''), (''text'', PStr ''[ASUKOHT]''),
                             (''operator'', PStr ''replace'')]])], 200), [])"
proof -
  let ?text = "PStr ''Jaan Tamm elab Tallinnas.''"
  let ?entries = "[(''PERSON'', PDict [(''type'', PStr ''replace''), (''new_value'', PStr ''[ISIK]'')])]"
  let ?bad = "[(''PERSON'', PDict [(''type'', PStr [])])]"
  let ?results = "[RecognizerResult ''PERSON'' 0 9 0.85, RecognizerResult ''LOCATION'' 15 24 0.9]"
  have ents: "anonymize_entities_to_detect (config probe_server)
           (case map_of kv ''entities'' of None \<Rightarrow> PNone | Some v \<Rightarrow> v) = Inr anonymize_default_entities"
    if "map_of kv ''entities'' = None" for kv :: "(string \<times> pyval) list"
    using that by (simp add: anonymize_entities_to_detect_def probe_server_def demo_config_def)
  have run: "analyzer probe_server
           [(''text'', ?text), (''entities'', anonymize_default_entities),
            (''language'', case map_of kv ''language'' of None \<Rightarrow> PStr ''xx'' | Some v \<Rightarrow> v)]
         = Inr ?results" for kv :: "(string \<times> pyval) list"
    by (simp add: probe_server_def probe_analyzer_def anonymize_default_entities_def
        RecognizerResult_def)
  have 1: "anonymize_route probe_server
     (json_request [(''text'', ?text), (''anonymizers'', demo_anonymizers)])
   = ((PDict [(''text'', PStr []),
              (''items'',
               PList [PDict [(''start'', PInt 0), (''end'', PInt 9),
                             (''entity_type'', PStr ''PERSON''), (''text'', PStr ''[ISIK]''),
                             (''operator'', PStr ''replace'')],
                      PDict [(''start'', PInt 15), (''end'', PInt 24),
                             (''entity_type'', PStr ''LOCATION''), (''text'', PStr []),
                             (''operator'', PStr ''no operator'')]])], 200), [])"
    using anonymize_operators_one_source
      [of "json_request [(''text'', ?text), (''anonymizers'', demo_anonymizers)]"
          "[(''text'', ?text), (''anonymizers'', demo_anonymizers)]" ?text probe_server
          anonymize_default_entities ?results ?entries,
       OF _ _ _ ents run]
    by (simp add: json_request_def demo_anonymizers_def probe_server_def probe_anonymizer_def
        RecognizerResult_def item_dict_def)
  have 2: "snd (fst (anonymize_route probe_server
        (json_request [(''text'', ?text), (''anonymizers'', PDict ?bad)]))) = 500"
    using anonymize_operators_one_source
      [of "json_request [(''text'', ?text), (''anonymizers'', PDict ?bad)]"
          "[(''text'', ?text), (''anonymizers'', PDict ?bad)]" ?text probe_server
          anonymize_default_entities ?results ?bad "''PERSON''" "PDict [(''type'', PStr [])]",
       OF _ _ _ ents run]
    by (simp add: json_request_def)
  have 3: "anonymize_route probe_server (json_request [(''text'', ?text)])
   = ((PDict [(''text'', PStr []),
              (''items'',
               PList [PDict [(''start'', PInt 0), (''end'', PInt 9),
                             (''entity_type'', PStr ''PERSON''), (''text'', PStr []),
                             (''operator'', PStr ''no operator'')],
                      PDict [(''start'', PInt 15), (''end'', PInt 24),
                             (''entity_type'', PStr ''LOCATION''), (''text'', PStr ''[ASUKOHT]''),
                             (''operator'', PStr ''replace'')]])], 200), [])"
    using anonymize_operators_one_source
      [of "json_request [(''text'', ?text)]" "[(''text'', ?text)]" ?text probe_server
          anonymize_default_entities ?results _ _ _
          "PDict [(''default_operators'', PDict [(''LOCATION'', PStr ''[ASUKOHT]'')])]"
          "[(''LOCATION'', PStr ''[ASUKOHT]'')]",
       OF _ _ _ ents run]
    by (simp add: json_request_def probe_server_def demo_config_def probe_anonymizer_def
        RecognizerResult_def item_dict_def)
  from 1 2 3 show ?thesis by blast
qed

text \<open>
  The claim C5 fails for a request that overrides the operator for persons under a
  configuration with a default operator for locations: the engine finds no operator for
  the location, while the same configuration gives the default when the request has no
  map.
\<close>

theorem anonymize_operators_counterexample:
  "anonymize_route probe_server
     (json_request [(''text'', PStr ''Jaan Tamm elab Tallinnas.''),
                    (''anonymizers'', demo_anonymizers)])
   = ((PDict [(''text'', PStr []),
              (''items'',
               PList [PDict [(''start'', PInt 0), (''end'', PInt 9),
                             (''entity_type'', PStr ''PERSON''), (''text'', PStr ''[ISIK]''),
                             (''operator'', PStr ''replace'')],
                      PDict [(''start'', PInt 15), (''end'', PInt 24),
                             (''entity_type'', PStr ''LOCATION''), (''text'', PStr []),
                             (''operator'', PStr ''no operator'')]])], 200), [])
   \<and> setup_operators demo_anonymizers demo_config
     = Inr [''PERSON'' \<mapsto> OperatorConfig (PStr ''replace'') [(''new_value'', PStr ''[ISIK]'')]]
   \<and> [''PERSON'' \<mapsto> OperatorConfig (PStr ''replace'') [(''new_value'', PStr ''[ISIK]'')]] ''LOCATION''
       = None
   \<and> setup_operators PNone demo_config
     = Inr [''LOCATION'' \<mapsto> OperatorConfig (PStr ''replace'') [(''new_value'', PStr ''[ASUKOHT]'')]]"
proof -
  have "setup_operators demo_anonymizers demo_config
     = Inr [''PERSON'' \<mapsto> OperatorConfig (PStr ''replace'') [(''new_value'', PStr ''[ISIK]'')]]
   \<and> [''PERSON'' \<mapsto> OperatorConfig (PStr ''replace'') [(''new_value'', PStr ''[ISIK]'')]] ''LOCATION''
       = None
   \<and> setup_operators PNone demo_config
     = Inr [''LOCATION'' \<mapsto> OperatorConfig (PStr ''replace'') [(''new_value'', PStr ''[ASUKOHT]'')]]"
    by (simp add: setup_operators_def demo_anonymizers_def demo_config_def
        operator_for_def operator_params_def operator_config_init_def py_bind_def)
  with probe_override_run show ?thesis by (rule conjI)
qed

lemma result_dict_score:
  "py_getitem (result_dict str result) ''score'' = Inr (PStr (str (score result)))"
  by (simp add: result_dict_def)

lemma analyze_body_ok:
  assumes "analyze_body self request = Inr (body, 200)"
  shows "\<exists>kwargs analyzer_results text.
           analyzer self kwargs = Inr analyzer_results \<and>
           body = PDict [(''results'', PList (map (result_dict (float_str self)) analyzer_results)),
                         (''text'', text)]"
  using assms
  by (auto simp: analyze_body_def py_bind_eq_Inr jsonify_error_def split: if_splits)

text \<open>
  C6, as the code has it. The claim reads: every result entry of a successful response
  of /analyze has a score that is a number between 0 and 1. Line 167 applies \<open>str\<close> to
  the score: every result entry of a response with status 200 is the dict of a result
  that the analyzer returned, and its score field is the string that \<open>str\<close> gives for
  that result's score. The handler does not look at the value of the score.
\<close>

theorem analyze_route_score_is_text:
  assumes "analyze_route self request = ((body, 200), logged)"
  shows "\<exists>kwargs analyzer_results text.
           analyzer self kwargs = Inr analyzer_results \<and>
           body = PDict [(''results'', PList (map (result_dict (float_str self)) analyzer_results)),
                         (''text'', text)] \<and>
           (\<forall>result \<in> set analyzer_results.
              py_getitem (result_dict (float_str self) result) ''score''
                = Inr (PStr (float_str self (score result))))"
proof -
  from assms have "analyze_body self request = Inr (body, 200)"
    by (cases "analyze_body self request") (simp_all add: analyze_route_def)
  from analyze_body_ok [OF this] show ?thesis
    by (simp add: result_dict_score)
qed

theorem analyze_route_score_is_text_witness:
  "analyze_route demo_server (json_request [(''text'', PStr ''Jaan Tamm'')])
     = ((PDict [(''results'',
                 PList [PDict [(''entity_type'', PStr ''PERSON''), (''start'', PInt 0),
                               (''end'', PInt 9), (''score'', PStr ''0.85'')]]),
                (''text'', PStr ''Jaan Tamm'')], 200), [])
   \<and> (\<exists>kwargs analyzer_results text.
         analyzer demo_server kwargs = Inr analyzer_results \<and>
         PDict [(''results'',
                 PList [PDict [(''entity_type'', PStr ''PERSON''), (''start'', PInt 0),
                               (''end'', PInt 9), (''score'', PStr ''0.85'')]]),
                (''text'', PStr ''Jaan Tamm'')]
           = PDict [(''results'', PList (map (result_dict (float_str demo_server)) analyzer_results)),
                    (''text'', text)] \<and>
         (\<forall>result \<in> set analyzer_results.
            py_getitem (result_dict (float_str demo_server) result) ''score''
              = Inr (PStr (float_str demo_server (score result)))))"
proof -
  have run: "analyze_route demo_server (json_request [(''text'', PStr ''Jaan Tamm'')])
     = ((PDict [(''results'',
                 PList [PDict [(''entity_type'', PStr ''PERSON''), (''start'', PInt 0),
                               (''end'', PInt 9), (''score'', PStr ''0.85'')]]),
                (''text'', PStr ''Jaan Tamm'')], 200), [])"
    by (simp add: analyze_route_def analyze_body_def json_request_def demo_server_def
        demo_config_def demo_analyzer_def analyze_entities_to_detect_def result_dict_def
        RecognizerResult_def)
  show ?thesis
    by (rule conjI [OF run analyze_route_score_is_text [OF run]])
qed

text \<open>
  The claim C6 fails on the request for \<open>Jaan Tamm\<close>: the response has status 200 and
  the score of its one entry is the string 0.85, which is no float of the data model.
\<close>

theorem analyze_route_score_counterexample:
  "analyze_route demo_server (json_request [(''text'', PStr ''Jaan Tamm'')])
     = ((PDict [(''results'',
                 PList [PDict [(''entity_type'', PStr ''PERSON''), (''start'', PInt 0),
                               (''end'', PInt 9), (''score'', PStr ''0.85'')]]),
                (''text'', PStr ''Jaan Tamm'')], 200), [])
   \<and> \<not> spec_score_valid (PStr ''0.85'')"
  by (simp add: analyze_route_def analyze_body_def json_request_def demo_server_def
      demo_config_def demo_analyzer_def analyze_entities_to_detect_def result_dict_def
      RecognizerResult_def)

text \<open>
  Both routes let a non-empty list of the request win, and fall back to the value of
  the configuration's key \<open>entities_to_detect\<close>.
\<close>

lemma entities_override_wins:
  "py_truthy entities \<Longrightarrow>
     analyze_entities_to_detect cfg entities = Inr entities \<and>
     anonymize_entities_to_detect cfg entities = Inr entities"
  by (simp add: analyze_entities_to_detect_def anonymize_entities_to_detect_def)

lemma entities_config_default:
  "\<not> py_truthy entities \<Longrightarrow> map_of cfg ''entities_to_detect'' = Some v \<Longrightarrow>
     analyze_entities_to_detect (PDict cfg) entities = Inr v \<and>
     anonymize_entities_to_detect (PDict cfg) entities = Inr v"
  by (simp add: analyze_entities_to_detect_def anonymize_entities_to_detect_def)

text \<open>
  C7, where the code departs from it. The claim reads: when neither the request nor the
  configuration names the entities, both routes resolve to the same list of eleven
  categories. The route /analyze does; the fallback of the route /anonymize, written
  for the same key of the configuration, has eight entries and lacks IBAN_CODE, CRYPTO
  and CREDIT_CARD.
\<close>

theorem anonymize_fallback_has_eight_entities:
  "analyze_entities_to_detect demo_config PNone =
     Inr (PList [PStr ''PERSON'', PStr ''LOCATION'', PStr ''ORGANIZATION'', PStr ''PHONE_NUMBER'',
                 PStr ''EMAIL_ADDRESS'', PStr ''URL'', PStr ''IP_ADDRESS'', PStr ''IBAN_CODE'',
                 PStr ''DATE_TIME'', PStr ''CRYPTO'', PStr ''CREDIT_CARD''])
   \<and> anonymize_entities_to_detect demo_config PNone =
     Inr (PList [PStr ''PERSON'', PStr ''ORGANIZATION'', PStr ''LOCATION'', PStr ''DATE_TIME'',
                 PStr ''EMAIL_ADDRESS'', PStr ''PHONE_NUMBER'', PStr ''URL'', PStr ''IP_ADDRESS''])
   \<and> anonymize_entities_to_detect demo_config PNone \<noteq> analyze_entities_to_detect demo_config PNone"
  by (simp add: analyze_entities_to_detect_def anonymize_entities_to_detect_def demo_config_def
      analyze_default_entities_def anonymize_default_entities_def)

lemma analyze_body_no_500: "analyze_body self request \<noteq> Inr (body, 500)"
  by (auto simp: analyze_body_def py_bind_eq_Inr jsonify_error_def split: if_splits)

lemma anonymize_body_no_500: "anonymize_body self request \<noteq> Inr (body, 500)"
  by (auto simp: anonymize_body_def py_bind_eq_Inr jsonify_error_def split: if_splits)

text \<open>
  C8, as the code has it. The claim reads: the response to an unexpected exception is a
  500 with a generic message without detail of the exception. Each view function
  catches every exception of its body itself: the response is a 500 whose message is
  the name of the operation followed by the text of the exception, and the same line is
  logged; a 500 of these routes has no other origin. The generic message belongs to
  \<open>handle_generic_exception\<close>, which logs the text of the exception and answers
  \<open>Internal server error\<close>, for exceptions that leave a view function.
\<close>

theorem route_failure_carries_exception_text:
  "(analyze_body self request = Inl e
    \<longrightarrow> analyze_route self request =
          ((jsonify_error (''Analysis failed: '' @ exc_str e), 500),
           [''Analysis failed: '' @ exc_str e]))
   \<and> (anonymize_body self request = Inl e
    \<longrightarrow> anonymize_route self request =
          ((jsonify_error (''Anonymization failed: '' @ exc_str e), 500),
           [''Anonymization failed: '' @ exc_str e]))
   \<and> (snd (fst (analyze_route self request)) = 500
    \<longrightarrow> (\<exists>e'. analyze_body self request = Inl e' \<and>
              fst (fst (analyze_route self request))
                = jsonify_error (''Analysis failed: '' @ exc_str e')))
   \<and> (snd (fst (anonymize_route self request)) = 500
    \<longrightarrow> (\<exists>e'. anonymize_body self request = Inl e' \<and>
              fst (fst (anonymize_route self request))
                = jsonify_error (''Anonymization failed: '' @ exc_str e')))
   \<and> handle_generic_exception e =
       ((jsonify_error ''Internal server error'', 500), [''Unexpected error: '' @ exc_str e])"
proof (intro conjI impI)
  assume "analyze_body self request = Inl e"
  then show "analyze_route self request =
          ((jsonify_error (''Analysis failed: '' @ exc_str e), 500),
           [''Analysis failed: '' @ exc_str e])"
    by (simp add: analyze_route_def)
next
  assume "anonymize_body self request = Inl e"
  then show "anonymize_route self request =
          ((jsonify_error (''Anonymization failed: '' @ exc_str e), 500),
           [''Anonymization failed: '' @ exc_str e])"
    by (simp add: anonymize_route_def)
next
  assume a: "snd (fst (analyze_route self request)) = 500"
  show "\<exists>e'. analyze_body self request = Inl e' \<and>
              fst (fst (analyze_route self request))
                = jsonify_error (''Analysis failed: '' @ exc_str e')"
  proof (cases "analyze_body self request")
    case (Inl e')
    then show ?thesis by (simp add: analyze_route_def)
  next
    case (Inr resp)
    with a have "analyze_body self request = Inr (fst resp, 500)"
      by (cases resp) (simp add: analyze_route_def)
    then show ?thesis by (simp add: analyze_body_no_500)
  qed
next
  assume a: "snd (fst (anonymize_route self request)) = 500"
  show "\<exists>e'. anonymize_body self request = Inl e' \<and>
              fst (fst (anonymize_route self request))
                = jsonify_error (''Anonymization failed: '' @ exc_str e')"
  proof (cases "anonymize_body self request")
    case (Inl e')
    then show ?thesis by (simp add: anonymize_route_def)
  next
    case (Inr resp)
    with a have "anonymize_body self request = Inr (fst resp, 500)"
      by (cases resp) (simp add: anonymize_route_def)
    then show ?thesis by (simp add: anonymize_body_no_500)
  qed
next
  show "handle_generic_exception e =
       ((jsonify_error ''Internal server error'', 500), [''Unexpected error: '' @ exc_str e])"
    by (simp add: handle_generic_exception_def)
qed

lemma analyze_body_demo_failure:
  "analyze_body demo_server (json_request [(''text'', PStr ''Tere'')])
     = Inl (LibraryError ''cannot open /srv/models/estbert/model.bin'')"
  by (simp add: analyze_body_def json_request_def demo_server_def demo_config_def
      demo_analyzer_def analyze_entities_to_detect_def)

lemma anonymize_body_demo_failure:
  "anonymize_body demo_server (json_request [(''text'', PStr ''Tere'')])
     = Inl (LibraryError ''cannot open /srv/models/estbert/model.bin'')"
  by (simp add: anonymize_body_def json_request_def demo_server_def demo_config_def
      demo_analyzer_def anonymize_entities_to_detect_def)

theorem route_failure_carries_exception_text_witness:
  "analyze_route demo_server (json_request [(''text'', PStr ''Tere'')]) =
     ((jsonify_error ''Analysis failed: cannot open /srv/models/estbert/model.bin'', 500),
      [''Analysis failed: cannot open /srv/models/estbert/model.bin''])
   \<and> anonymize_route demo_server (json_request [(''text'', PStr ''Tere'')]) =
     ((jsonify_error ''Anonymization failed: cannot open /srv/models/estbert/model.bin'', 500),
      [''Anonymization failed: cannot open /srv/models/estbert/model.bin''])
   \<and> (\<exists>e'. analyze_body demo_server (json_request [(''text'', PStr ''Tere'')]) = Inl e')
   \<and> (\<exists>e'. anonymize_body demo_server (json_request [(''text'', PStr ''Tere'')]) = Inl e')"
proof -
  note t = route_failure_carries_exception_text
    [of demo_server "json_request [(''text'', PStr ''Tere'')]"
        "LibraryError ''cannot open /srv/models/estbert/model.bin''"]
  from t analyze_body_demo_failure
  have 1: "analyze_route demo_server (json_request [(''text'', PStr ''Tere'')]) =
     ((jsonify_error ''Analysis failed: cannot open /srv/models/estbert/model.bin'', 500),
      [''Analysis failed: cannot open /srv/models/estbert/model.bin''])"
    by simp
  from t anonymize_body_demo_failure
  have 2: "anonymize_route demo_server (json_request [(''text'', PStr ''Tere'')]) =
     ((jsonify_error ''Anonymization failed: cannot open /srv/models/estbert/model.bin'', 500),
      [''Anonymization failed: cannot open /srv/models/estbert/model.bin''])"
    by simp
  from 1 t have 3: "\<exists>e'. analyze_body demo_server (json_request [(''text'', PStr ''Tere'')]) = Inl e'"
    by auto
  from 2 t have 4: "\<exists>e'. anonymize_body demo_server (json_request [(''text'', PStr ''Tere'')]) = Inl e'"
    by auto
  from 1 2 3 4 show ?thesis by blast
qed

text \<open>
  The claim C8 fails when the analyzer raises: the error message of the response holds
  the text of the exception, here the path of a file of the server, and is not the
  response of the generic handler.
\<close>

theorem analyze_route_leaks_exception_text_counterexample:
  "analyze_route demo_server (json_request [(''text'', PStr ''Tere'')]) =
     ((PDict [(''error'', PStr ''Analysis failed: cannot open /srv/models/estbert/model.bin'')], 500),
      [''Analysis failed: cannot open /srv/models/estbert/model.bin''])
   \<and> sublist ''cannot open /srv/models/estbert/model.bin''
        ''Analysis failed: cannot open /srv/models/estbert/model.bin''
   \<and> fst (analyze_route demo_server (json_request [(''text'', PStr ''Tere'')]))
       \<noteq> fst (handle_generic_exception (LibraryError ''cannot open /srv/models/estbert/model.bin''))"
proof -
  have "sublist ''cannot open /srv/models/estbert/model.bin''
        (''Analysis failed: '' @ ''cannot open /srv/models/estbert/model.bin'')"
    by (rule sublist_append_leftI)
  then show ?thesis
    by (simp add: analyze_route_def analyze_body_demo_failure jsonify_error_def
        handle_generic_exception_def)
qed






end
